theory Spec2Isabelle
  imports Main "HOL-Library.AList"
begin

section \<open>Data model\<close>

text \<open>
  Identifiers are UUIDs; only their identity matters, so they are natural numbers.
  File contents and object bodies are byte strings.
\<close>

type_synonym uuid = nat
type_synonym bytes = string

text \<open>
  A storage key is a path relative to the media root. The module \<open>plib\<close> builds it from
  entity identifiers; the same relative path, under the configured prefix, is the key of
  the object in the bucket. The constructors stand for \<open>plib.docver_path\<close>,
  \<open>plib.page_path\<close>, \<open>plib.page_txt_path\<close>, the operator \<open>/\<close> of \<open>pathlib\<close> and the
  attribute \<open>.parent\<close>.
\<close>

datatype relpath =
    DocverPath uuid string
  | PagePath uuid
  | PageTxtPath uuid
  | Child relpath string
  | Parent relpath

text \<open>
  Modelled from the spec: the fixed name of a page's rendered PDF inside the page
  directory (\<open>const.PAGE_PDF\<close>); the module of constants is not among the sources, and
  no statement below depends on the spelling.
\<close>

definition PAGE_PDF :: string where
  "PAGE_PDF = ''page.pdf''"

definition page_pdf_path :: "uuid \<Rightarrow> relpath" where
  "page_pdf_path page_id = Child (PagePath page_id) PAGE_PDF"

record settings =
  papermerge__s3__bucket_name :: "string option"
  aws_access_key_id :: "string option"
  aws_secret_access_key :: "string option"
  papermerge__main__prefix :: string

text \<open>What the code can raise.\<close>

datatype exn =
    S3DocumentNotFound
  | ValueError string
  | ClientError nat
  | EndpointConnectionError
  | S3UploadFailedError
  | HttpTransportError
  | NoResultFound
  | IsADirectoryError
  | FileNotFoundError

text \<open>Every operation that goes over the network leaves an entry in the log.\<close>

datatype remote_call =
    HeadObject relpath
  | DownloadFile relpath
  | UploadFile relpath
  | HttpGet relpath

text \<open>
  How the object store answers for a key: normally, with an access-denied error
  response, or not at all (the connection fails).
\<close>

datatype fault = Denied | Unreachable

datatype response = Response (status: nat) (body: bytes)

subsection \<open>Metadata rows\<close>

record docver =
  dv_id :: uuid
  dv_document :: uuid
  dv_number :: nat
  dv_file_name :: string
  dv_lang :: string

record page =
  pg_id :: uuid
  pg_docver :: uuid
  pg_number :: nat
  pg_text :: string

record database =
  versions :: "docver list"
  pages :: "page list"

subsection \<open>The task graph\<close>

record ocr_page_kwargs =
  op_doc_id :: uuid
  op_doc_ver_id :: uuid
  op_page_number :: nat
  op_target_docver_id :: uuid
  op_target_page_id :: uuid
  op_lang :: string
  op_preview_width :: nat

datatype task =
    OcrPage ocr_page_kwargs
  | StitchPages uuid uuid "uuid list"
  | UpdateDb uuid uuid string uuid "uuid list"
  | GeneratePreview string
  | NotifyIndex string

text \<open>A signature is a task bound to a queue; a workflow is a chain of stages.\<close>

datatype stage = Group "(task \<times> string) list" | Single "task \<times> string"

type_synonym workflow = "stage list"

subsection \<open>The world a task runs in\<close>

record world =
  files :: "(relpath \<times> bytes) list"
  dirs :: "relpath list"
  objects :: "(relpath \<times> bytes) list"
  faults :: "relpath \<Rightarrow> fault option"
  error_body :: "nat \<Rightarrow> bytes"
  calls :: "remote_call list"
  db :: database
  rng :: "nat \<Rightarrow> uuid"
  drawn :: nat
  submitted :: "workflow list"

type_synonym 'a io = "world \<Rightarrow> (exn + 'a) \<times> world"

definition ret :: "'a \<Rightarrow> 'a io" where
  "ret x w = (Inr x, w)"

definition raise :: "exn \<Rightarrow> 'a io" where
  "raise e w = (Inl e, w)"

definition bnd :: "'a io \<Rightarrow> ('a \<Rightarrow> 'b io) \<Rightarrow> 'b io" where
  "bnd m f w = (case m w of (Inl e, w') \<Rightarrow> (Inl e, w') | (Inr x, w') \<Rightarrow> f x w')"

text \<open>A \<open>for\<close> loop whose body may raise.\<close>

fun for_each :: "('a \<Rightarrow> unit io) \<Rightarrow> 'a list \<Rightarrow> unit io" where
  "for_each f [] w = (Inr (), w)"
| "for_each f (x # xs) w =
     (case f x w of (Inl e, w') \<Rightarrow> (Inl e, w') | (Inr _, w') \<Rightarrow> for_each f xs w')"

section \<open>Local file system\<close>

definition is_file :: "world \<Rightarrow> relpath \<Rightarrow> bool" where
  "is_file w p = (map_of (files w) p \<noteq> None)"

definition path_exists :: "world \<Rightarrow> relpath \<Rightarrow> bool" where
  "path_exists w p = (is_file w p \<or> p \<in> set (dirs w))"

definition mkdir :: "relpath \<Rightarrow> unit io" where
  "mkdir d w = (Inr (), w\<lparr>dirs := List.insert d (dirs w)\<rparr>)"

definition write_bytes :: "relpath \<Rightarrow> bytes \<Rightarrow> unit io" where
  "write_bytes p data w = (Inr (), w\<lparr>files := AList.update p data (files w)\<rparr>)"

text \<open>The entries directly inside a directory, as \<open>Path.glob("*")\<close> lists them.\<close>

fun inside :: "relpath \<Rightarrow> relpath \<Rightarrow> bool" where
  "inside d (Child d' n) = (d = d')"
| "inside d _ = False"

fun name :: "relpath \<Rightarrow> string" where
  "name (Child d n) = n"
| "name (DocverPath u f) = f"
| "name _ = []"

definition glob_star :: "world \<Rightarrow> relpath \<Rightarrow> relpath list" where
  "glob_star w d = filter (inside d) (map fst (files w) @ dirs w)"

section \<open>The object store and the HTTP client\<close>

definition logged :: "remote_call \<Rightarrow> world \<Rightarrow> world" where
  "logged c w = w\<lparr>calls := calls w @ [c]\<rparr>"

text \<open>\<open>client.head_object\<close>: a client error carries the HTTP status of the response.\<close>

definition head_object :: "relpath \<Rightarrow> unit io" where
  "head_object k w =
     (case faults w k of
        Some Unreachable \<Rightarrow> (Inl EndpointConnectionError, logged (HeadObject k) w)
      | Some Denied \<Rightarrow> (Inl (ClientError 403), logged (HeadObject k) w)
      | None \<Rightarrow>
          (case map_of (objects w) k of
             None \<Rightarrow> (Inl (ClientError 404), logged (HeadObject k) w)
           | Some b \<Rightarrow> (Inr (), logged (HeadObject k) w)))"

text \<open>\<open>client.download_file(bucket, key, filename)\<close>.\<close>

definition s3_download_file :: "relpath \<Rightarrow> relpath \<Rightarrow> unit io" where
  "s3_download_file k dst w =
     (case faults w k of
        Some Unreachable \<Rightarrow> (Inl EndpointConnectionError, logged (DownloadFile k) w)
      | Some Denied \<Rightarrow> (Inl (ClientError 403), logged (DownloadFile k) w)
      | None \<Rightarrow>
          (case map_of (objects w) k of
             None \<Rightarrow> (Inl (ClientError 404), logged (DownloadFile k) w)
           | Some b \<Rightarrow> write_bytes dst b (logged (DownloadFile k) w)))"

text \<open>\<open>client.upload_file(filename, Bucket, Key)\<close>.\<close>

definition s3_upload_file :: "relpath \<Rightarrow> relpath \<Rightarrow> unit io" where
  "s3_upload_file src k w =
     (case map_of (files w) src of
        None \<Rightarrow> (Inl FileNotFoundError, w)
      | Some b \<Rightarrow>
          (case faults w k of
             Some Unreachable \<Rightarrow> (Inl EndpointConnectionError, logged (UploadFile k) w)
           | Some Denied \<Rightarrow> (Inl S3UploadFailedError, logged (UploadFile k) w)
           | None \<Rightarrow>
               (Inr (), (logged (UploadFile k) w)\<lparr>objects := AList.update k b (objects w)\<rparr>)))"

text \<open>
  The answer to a GET of a presigned URL for a key: an error response is a response,
  with a status and an error document as its body; only a failed connection raises.
\<close>

definition answer :: "world \<Rightarrow> relpath \<Rightarrow> exn + response" where
  "answer w k =
     (case faults w k of
        Some Unreachable \<Rightarrow> Inl HttpTransportError
      | Some Denied \<Rightarrow> Inr (Response 403 (error_body w 403))
      | None \<Rightarrow>
          (case map_of (objects w) k of
             None \<Rightarrow> Inr (Response 404 (error_body w 404))
           | Some b \<Rightarrow> Inr (Response 200 b)))"

definition http_get :: "relpath \<Rightarrow> response io" where
  "http_get k w = (answer w k, logged (HttpGet k) w)"

section \<open>Storage mirror (s3.py)\<close>

definition truthy :: "string option \<Rightarrow> bool" where
  "truthy s = (case s of None \<Rightarrow> False | Some v \<Rightarrow> v \<noteq> [])"

definition is_enabled :: "settings \<Rightarrow> bool" where
  "is_enabled st =
     list_all truthy
       [papermerge__s3__bucket_name st, aws_access_key_id st, aws_secret_access_key st]"

definition skip_if_s3_disabled :: "settings \<Rightarrow> unit io \<Rightarrow> unit io" where
  "skip_if_s3_disabled st func w = (if \<not> is_enabled st then (Inr (), w) else func w)"

definition obj_exists :: "relpath \<Rightarrow> bool io" where
  "obj_exists keyname w =
     (case head_object keyname w of
        (Inl (ClientError c), w') \<Rightarrow> (Inr False, w')
      | (Inl e, w') \<Rightarrow> (Inl e, w')
      | (Inr _, w') \<Rightarrow> (Inr True, w'))"

definition download_docver :: "settings \<Rightarrow> uuid \<Rightarrow> string \<Rightarrow> unit io" where
  "download_docver st docver_id file_name =
     skip_if_s3_disabled st
       (\<lambda>w. let doc_ver_path = DocverPath docver_id file_name;
                keyname = DocverPath docver_id file_name
            in bnd (\<lambda>w. if \<not> path_exists w doc_ver_path
                        then bnd (obj_exists keyname)
                               (\<lambda>found. if \<not> found then raise S3DocumentNotFound else ret ()) w
                        else ret () w)
                 (\<lambda>_. bnd (mkdir (Parent doc_ver_path))
                         (\<lambda>_. s3_download_file keyname doc_ver_path)) w)"

definition upload_file :: "settings \<Rightarrow> relpath \<Rightarrow> unit io" where
  "upload_file st rel_file_path =
     skip_if_s3_disabled st
       (\<lambda>w. if \<not> path_exists w rel_file_path then ret () w
            else if \<not> is_file w rel_file_path then ret () w
            else s3_upload_file rel_file_path rel_file_path w)"

definition upload_page_dir :: "settings \<Rightarrow> uuid \<Rightarrow> unit io" where
  "upload_page_dir st page_id =
     skip_if_s3_disabled st
       (\<lambda>w. for_each
              (\<lambda>path w. if is_file w path
                         then upload_file st (Child (PagePath page_id) (name path)) w
                         else ret () w)
              (glob_star w (PagePath page_id)) w)"

definition download_page_txt :: "settings \<Rightarrow> uuid \<Rightarrow> unit io" where
  "download_page_txt st page_id =
     skip_if_s3_disabled st
       (\<lambda>w. let abs_path = PageTxtPath page_id; keyname = PageTxtPath page_id
            in if path_exists w abs_path then ret () w
               else bnd (obj_exists keyname)
                      (\<lambda>found. if \<not> found then raise (ValueError ''not found on S3'')
                                else bnd (mkdir (Parent abs_path))
                                       (\<lambda>_. s3_download_file keyname abs_path)) w)"

definition get_pdf_page :: "uuid \<Rightarrow> bytes io" where
  "get_pdf_page page_id = bnd (http_get (page_pdf_path page_id)) (\<lambda>resp. ret (body resp))"

definition download_one_pdf_page :: "uuid \<Rightarrow> unit io" where
  "download_one_pdf_page page_id =
     bnd (get_pdf_page page_id)
       (\<lambda>page_data. bnd (mkdir (Parent (page_pdf_path page_id)))
                       (\<lambda>_. write_bytes (page_pdf_path page_id) page_data))"

text \<open>
  \<open>asyncio.gather\<close> without \<open>return_exceptions\<close>: the first exception is what the caller
  gets. The interleaving of the coroutines is not modelled: they run in list order, and
  nothing after the failing one is run.
\<close>

fun gather :: "'a io list \<Rightarrow> 'a list io" where
  "gather [] w = (Inr [], w)"
| "gather (m # ms) w =
     (case m w of
        (Inl e, w') \<Rightarrow> (Inl e, w')
      | (Inr x, w') \<Rightarrow>
          (case gather ms w' of
             (Inl e, w'') \<Rightarrow> (Inl e, w'')
           | (Inr xs, w'') \<Rightarrow> (Inr (x # xs), w'')))"

definition supervisor :: "uuid list \<Rightarrow> nat io" where
  "supervisor page_ids =
     bnd (gather (map download_one_pdf_page page_ids)) (\<lambda>res. ret (length res))"

definition download_many_pdf_pages :: "uuid list \<Rightarrow> nat io" where
  "download_many_pdf_pages page_ids = supervisor page_ids"

definition download_pdf_pages :: "settings \<Rightarrow> uuid list \<Rightarrow> unit io" where
  "download_pdf_pages st target_page_ids =
     skip_if_s3_disabled st
       (\<lambda>w. let to_download =
                  filter (\<lambda>page_id. \<not> path_exists w (page_pdf_path page_id)) target_page_ids
            in bnd (download_many_pdf_pages to_download) (\<lambda>_. ret ()) w)"

section \<open>Metadata store\<close>

text \<open>
  Modelled from the spec: the operations of the metadata store (\<open>getLatestVersion\<close>,
  \<open>getVersion\<close>, \<open>getPages\<close>, \<open>commitNewVersion\<close>, \<open>attachText\<close>); the module \<open>db\<close> is
  not among the sources. The latest version of a document is the one with the highest
  number; pages are listed by page number; a new version takes the file name of the
  latest one and pages numbered from 1 with no text; attaching text overwrites.
\<close>

fun latest :: "docver list \<Rightarrow> docver option" where
  "latest [] = None"
| "latest (v # vs) =
     (case latest vs of
        None \<Rightarrow> Some v
      | Some u \<Rightarrow> if dv_number v \<le> dv_number u then Some u else Some v)"

definition get_last_version :: "database \<Rightarrow> uuid \<Rightarrow> exn + docver" where
  "get_last_version d doc_id =
     (case latest (filter (\<lambda>v. dv_document v = doc_id) (versions d)) of
        None \<Rightarrow> Inl NoResultFound
      | Some v \<Rightarrow> Inr v)"

definition get_doc_ver :: "database \<Rightarrow> uuid \<Rightarrow> exn + docver" where
  "get_doc_ver d doc_ver_id =
     (case find (\<lambda>v. dv_id v = doc_ver_id) (versions d) of
        None \<Rightarrow> Inl NoResultFound
      | Some v \<Rightarrow> Inr v)"

definition get_pages :: "database \<Rightarrow> uuid \<Rightarrow> page list" where
  "get_pages d doc_ver_id = sort_key pg_number (filter (\<lambda>p. pg_docver p = doc_ver_id) (pages d))"

definition new_pages :: "uuid \<Rightarrow> uuid list \<Rightarrow> page list" where
  "new_pages target_docver_uuid target_page_uuids =
     map (\<lambda>(index, u). \<lparr>pg_id = u, pg_docver = target_docver_uuid,
                        pg_number = index + 1, pg_text = []\<rparr>)
       (enumerate 0 target_page_uuids)"

definition increment_doc_ver ::
  "database \<Rightarrow> uuid \<Rightarrow> uuid \<Rightarrow> uuid list \<Rightarrow> string \<Rightarrow> exn + database" where
  "increment_doc_ver d document_id target_docver_uuid target_page_uuids lang =
     (case get_last_version d document_id of
        Inl e \<Rightarrow> Inl e
      | Inr v \<Rightarrow>
          Inr (d\<lparr>versions := versions d @
                   [\<lparr>dv_id = target_docver_uuid, dv_document = document_id,
                     dv_number = dv_number v + 1, dv_file_name = dv_file_name v,
                     dv_lang = lang\<rparr>],
                 pages := pages d @ new_pages target_docver_uuid target_page_uuids\<rparr>))"

definition update_doc_ver_text :: "database \<Rightarrow> uuid \<Rightarrow> string list \<Rightarrow> database" where
  "update_doc_ver_text d doc_ver_id streams =
     (let attached = zip (map pg_id (get_pages d doc_ver_id)) streams
      in d\<lparr>pages := map (\<lambda>p. if pg_docver p = doc_ver_id
                               then (case map_of attached (pg_id p) of
                                       None \<Rightarrow> p
                                     | Some t \<Rightarrow> p\<lparr>pg_text := t\<rparr>)
                               else p) (pages d)\<rparr>)"

text \<open>
  Modelled from the spec: the PDF merge collaborator (\<open>utils.stitch_pdf\<close>, not among the
  sources): given an ordered list of source paths and a destination, it produces one
  concatenated PDF at the destination. A PDF is represented by its content as a
  sequence, and merging is the concatenation of the sequences; a missing source
  raises.
\<close>

fun read_all :: "world \<Rightarrow> relpath list \<Rightarrow> bytes list option" where
  "read_all w [] = Some []"
| "read_all w (p # ps) =
     (case map_of (files w) p of
        None \<Rightarrow> None
      | Some b \<Rightarrow> (case read_all w ps of None \<Rightarrow> None | Some bs \<Rightarrow> Some (b # bs)))"

definition stitch_pdf :: "relpath list \<Rightarrow> relpath \<Rightarrow> unit io" where
  "stitch_pdf srcs dst w =
     (case read_all w srcs of
        None \<Rightarrow> (Inl FileNotFoundError, w)
      | Some bs \<Rightarrow> write_bytes dst (concat bs) w)"

section \<open>Tasks (tasks.py)\<close>

text \<open>
  Functions of the standard library the top-level task calls: \<open>uuid.UUID\<close> (which raises
  on a malformed string), \<open>mimetypes.guess_type\<close> and \<open>str.lower\<close>.
\<close>

record externals =
  parse_uuid :: "string \<Rightarrow> uuid option"
  guess_type :: "relpath \<Rightarrow> string option"
  lower :: "string \<Rightarrow> string"

text \<open>
  Modelled from the spec: the logical queue name (\<open>const.OCR\<close>); the module of
  constants is not among the sources.
\<close>

definition OCR :: string where
  "OCR = ''ocr''"

definition prefixed :: "settings \<Rightarrow> string \<Rightarrow> string" where
  "prefixed st nm =
     (let pref = papermerge__main__prefix st
      in if pref \<noteq> [] then pref @ ''_'' @ nm else nm)"

text \<open>\<open>uuid.uuid4()\<close> draws the next value of the random source.\<close>

definition uuid4 :: "world \<Rightarrow> uuid \<times> world" where
  "uuid4 w = (rng w (drawn w), w\<lparr>drawn := Suc (drawn w)\<rparr>)"

fun uuid4s :: "nat \<Rightarrow> world \<Rightarrow> uuid list \<times> world" where
  "uuid4s 0 w = ([], w)"
| "uuid4s (Suc n) w =
     (case uuid4 w of (u, w1) \<Rightarrow> (case uuid4s n w1 of (us, w2) \<Rightarrow> (u # us, w2)))"

text \<open>Lines 42 and 43: the identifiers of the target version and of its pages.\<close>

definition allocate :: "nat \<Rightarrow> world \<Rightarrow> (uuid \<times> uuid list) \<times> world" where
  "allocate n w =
     (case uuid4 w of (target_docver_uuid, w1) \<Rightarrow>
        (case uuid4s n w1 of (target_page_uuids, w2) \<Rightarrow>
           ((target_docver_uuid, target_page_uuids), w2)))"

definition per_page_ocr_tasks ::
  "settings \<Rightarrow> docver \<Rightarrow> uuid \<Rightarrow> uuid list \<Rightarrow> string \<Rightarrow> (task \<times> string) list" where
  "per_page_ocr_tasks st doc_ver target_docver_uuid target_page_uuids lang =
     map (\<lambda>(index, target_page_uuid).
            (OcrPage \<lparr>op_doc_id = dv_id doc_ver, op_doc_ver_id = dv_id doc_ver,
                      op_page_number = index + 1,
                      op_target_docver_id = target_docver_uuid,
                      op_target_page_id = target_page_uuid,
                      op_lang = lang, op_preview_width = 300\<rparr>,
             prefixed st OCR))
       (enumerate 0 target_page_uuids)"

definition build_workflow ::
  "settings \<Rightarrow> string \<Rightarrow> uuid \<Rightarrow> docver \<Rightarrow> uuid \<Rightarrow> uuid list \<Rightarrow> string \<Rightarrow> workflow" where
  "build_workflow st document_id doc_id doc_ver target_docver_uuid target_page_uuids lang =
     [Group (per_page_ocr_tasks st doc_ver target_docver_uuid target_page_uuids lang),
      Single (StitchPages (dv_id doc_ver) target_docver_uuid target_page_uuids,
              prefixed st OCR),
      Single (UpdateDb doc_id (dv_id doc_ver) lang target_docver_uuid target_page_uuids,
              prefixed st OCR),
      Single (GeneratePreview document_id, prefixed st OCR),
      Single (NotifyIndex document_id, prefixed st OCR)]"

definition apply_async :: "workflow \<Rightarrow> unit io" where
  "apply_async workflow w = (Inr (), w\<lparr>submitted := submitted w @ [workflow]\<rparr>)"

definition ocr_document_task :: "externals \<Rightarrow> settings \<Rightarrow> string \<Rightarrow> string \<Rightarrow> unit io" where
  "ocr_document_task ext st document_id lang w =
     (case parse_uuid ext document_id of
        None \<Rightarrow> (Inl (ValueError ''badly formed hexadecimal UUID string''), w)
      | Some doc_id \<Rightarrow>
          (case get_last_version (db w) doc_id of
             Inl e \<Rightarrow> (Inl e, w)
           | Inr doc_ver \<Rightarrow>
               (case allocate (length (get_pages (db w) (dv_id doc_ver))) w of
                  ((target_docver_uuid, target_page_uuids), w2) \<Rightarrow>
                    (case download_docver st (dv_id doc_ver) (dv_file_name doc_ver) w2 of
                       (Inl e, w3) \<Rightarrow> (Inl e, w3)
                     | (Inr _, w3) \<Rightarrow>
                         if guess_type ext (DocverPath (dv_id doc_ver) (dv_file_name doc_ver))
                              \<notin> {Some ''application/pdf'', Some ''application/image''}
                         then (Inl (ValueError ''Unsupported format for document''), w3)
                         else apply_async
                                (build_workflow st document_id doc_id doc_ver
                                   target_docver_uuid target_page_uuids (lower ext lang))
                                w3))))"

definition stitch_pages_task :: "settings \<Rightarrow> uuid \<Rightarrow> uuid \<Rightarrow> uuid list \<Rightarrow> unit io" where
  "stitch_pages_task st doc_ver_id target_docver_id target_page_ids w =
     (case get_doc_ver (db w) doc_ver_id of
        Inl e \<Rightarrow> (Inl e, w)
      | Inr doc_ver \<Rightarrow>
          bnd (download_pdf_pages st target_page_ids)
            (\<lambda>_. bnd (stitch_pdf (map page_pdf_path target_page_ids)
                        (DocverPath target_docver_id (dv_file_name doc_ver)))
                    (\<lambda>_. upload_file st
                           (DocverPath target_docver_id (dv_file_name doc_ver)))) w)"

text \<open>
  The loop of the commit step that collects one text stream per new page. Opening a
  directory for reading raises.
\<close>

fun collect_streams :: "settings \<Rightarrow> page list \<Rightarrow> string list \<Rightarrow> string list io" where
  "collect_streams st [] streams w = (Inr streams, w)"
| "collect_streams st (pg # rest) streams w =
     (case download_page_txt st (pg_id pg) w of
        (Inl e, w') \<Rightarrow> (Inl e, w')
      | (Inr _, w') \<Rightarrow>
          if path_exists w' (PageTxtPath (pg_id pg))
          then (case map_of (files w') (PageTxtPath (pg_id pg)) of
                  None \<Rightarrow> (Inl IsADirectoryError, w')
                | Some b \<Rightarrow> collect_streams st rest (streams @ [b]) w')
          else collect_streams st rest (streams @ [[]]) w')"

text \<open>
  The commit step. By the spec the commit is transactional, so a run that raises leaves
  the metadata as it was.
\<close>

definition update_db_task ::
  "settings \<Rightarrow> uuid \<Rightarrow> string \<Rightarrow> uuid \<Rightarrow> uuid list \<Rightarrow> unit io" where
  "update_db_task st doc_id lang target_docver_id target_page_ids w =
     (case increment_doc_ver (db w) doc_id target_docver_id target_page_ids lang of
        Inl e \<Rightarrow> (Inl e, w)
      | Inr d1 \<Rightarrow>
          (case collect_streams st (get_pages d1 target_docver_id) [] w of
             (Inl e, w') \<Rightarrow> (Inl e, w')
           | (Inr streams, w') \<Rightarrow>
               (Inr (), w'\<lparr>db := update_doc_ver_text d1 target_docver_id streams\<rparr>)))"

section \<open>The scheduler\<close>

subsection \<open>Automatic retry of the top-level task\<close>

text \<open>
  The decorator of \<open>ocr_document_task\<close>: \<open>autoretry_for=(S3DocumentNotFound,)\<close>,
  \<open>retry_kwargs={"max_retries": 6, "countdown": 10}\<close>. After an attempt that raised an
  exception of \<open>autoretry_for\<close>, Celery reschedules the task after \<open>countdown\<close> seconds,
  unless the number of retries made so far plus one exceeds \<open>max_retries\<close>; then, and
  for every other exception, the task has failed.
\<close>

definition max_retries :: nat where
  "max_retries = 6"

definition countdown :: nat where
  "countdown = 10"

definition autoretry_for :: "exn \<Rightarrow> bool" where
  "autoretry_for e = (e = S3DocumentNotFound)"

datatype verdict = Success | Retry nat | Failure exn

definition after_attempt :: "nat \<Rightarrow> exn + unit \<Rightarrow> verdict" where
  "after_attempt retries r =
     (case r of
        Inr _ \<Rightarrow> Success
      | Inl e \<Rightarrow>
          if autoretry_for e
          then (if retries + 1 > max_retries then Failure e else Retry countdown)
          else Failure e)"

text \<open>
  One submission of the top-level task: its attempts, the delays between them, its final
  state and the world it leaves. \<open>between n\<close> is what happens to the world during the
  delay after attempt \<open>n\<close> (an upload in flight may complete).
\<close>

function run_ocr_document ::
  "externals \<Rightarrow> settings \<Rightarrow> (nat \<Rightarrow> world \<Rightarrow> world) \<Rightarrow> string \<Rightarrow> string \<Rightarrow> nat \<Rightarrow> world
     \<Rightarrow> verdict \<times> nat list \<times> world" where
  "run_ocr_document ext st between document_id lang retries w =
     (case ocr_document_task ext st document_id lang w of
        (r, w') \<Rightarrow>
          (case after_attempt retries r of
             Retry d \<Rightarrow>
               (case run_ocr_document ext st between document_id lang (Suc retries)
                       (between retries w') of
                  (v, ds, w'') \<Rightarrow> (v, d # ds, w''))
           | v \<Rightarrow> (v, [], w')))"
  by pat_completeness auto
termination
  by (relation "measure (\<lambda>(ext, st, between, document_id, lang, retries, w).
                          Suc max_retries - retries)")
    (auto simp: after_attempt_def split: sum.splits if_splits)

subsection \<open>Execution of a task graph\<close>

text \<open>
  Celery runs the stages of a chain in order: a task of a stage can start only when every
  task of every earlier stage has succeeded (a group followed by a task is a chord, whose
  body waits for the whole header). The tasks of a group start and finish in any order.
  A position is a stage of the chain and a task of that stage.
\<close>

datatype tstate = Pending | Started | Succeeded | Failed

type_synonym progress = "nat \<times> nat \<Rightarrow> tstate"

fun tasks_of :: "stage \<Rightarrow> (task \<times> string) list" where
  "tasks_of (Group sigs) = sigs"
| "tasks_of (Single sig) = [sig]"

definition in_graph :: "workflow \<Rightarrow> nat \<times> nat \<Rightarrow> bool" where
  "in_graph workflow pos =
     (fst pos < length workflow \<and> snd pos < length (tasks_of (workflow ! fst pos)))"

definition task_at :: "workflow \<Rightarrow> nat \<times> nat \<Rightarrow> task" where
  "task_at workflow pos = fst (tasks_of (workflow ! fst pos) ! snd pos)"

definition ready :: "workflow \<Rightarrow> progress \<Rightarrow> nat \<Rightarrow> bool" where
  "ready workflow s i =
     (\<forall>i' < i. \<forall>j < length (tasks_of (workflow ! i')). s (i', j) = Succeeded)"

inductive step :: "workflow \<Rightarrow> progress \<Rightarrow> progress \<Rightarrow> bool" for workflow where
  start: "in_graph workflow (i, j) \<Longrightarrow> s (i, j) = Pending \<Longrightarrow> ready workflow s i
            \<Longrightarrow> step workflow s (s((i, j) := Started))"
| succeed: "in_graph workflow (i, j) \<Longrightarrow> s (i, j) = Started
            \<Longrightarrow> step workflow s (s((i, j) := Succeeded))"
| fail: "in_graph workflow (i, j) \<Longrightarrow> s (i, j) = Started
            \<Longrightarrow> step workflow s (s((i, j) := Failed))"

definition submitted_state :: progress where
  "submitted_state = (\<lambda>pos. Pending)"

definition reachable :: "workflow \<Rightarrow> progress \<Rightarrow> bool" where
  "reachable workflow s = (step workflow)\<^sup>*\<^sup>* submitted_state s"

text \<open>
  The invariant of the scheduler: wherever a task has left the pending state, its stage
  was ready.
\<close>

definition settled :: "workflow \<Rightarrow> progress \<Rightarrow> bool" where
  "settled workflow s = (\<forall>i j. s (i, j) \<noteq> Pending \<longrightarrow> ready workflow s i)"

section \<open>Concrete configurations\<close>

definition mirror_off :: settings where
  "mirror_off = \<lparr>papermerge__s3__bucket_name = None, aws_access_key_id = None,
     aws_secret_access_key = None, papermerge__main__prefix = []\<rparr>"

definition mirror_on :: settings where
  "mirror_on = \<lparr>papermerge__s3__bucket_name = Some ''bucket'',
     aws_access_key_id = Some ''key'', aws_secret_access_key = Some ''secret'',
     papermerge__main__prefix = []\<rparr>"

text \<open>
  The standard library on the inputs used below: \<open>d1\<close> stands for the textual form of
  identifier 1, the type of a path is guessed from its file name, and the language codes
  used are in lower case already.
\<close>

definition stdlib :: externals where
  "stdlib = \<lparr>parse_uuid = (\<lambda>s. if s = ''d1'' then Some 1 else None),
      guess_type = (\<lambda>p. if name p = ''scan.pdf'' then Some ''application/pdf''
                         else if name p = ''notes.txt'' then Some ''text/plain'' else None),
      lower = id\<rparr>"

text \<open>Document 1 has one version, 10, of two pages, in the file \<open>scan.pdf\<close>.\<close>

definition v1 :: docver where
  "v1 = \<lparr>dv_id = 10, dv_document = 1, dv_number = 1,
          dv_file_name = ''scan.pdf'', dv_lang = ''eng''\<rparr>"

definition db1 :: database where
  "db1 = \<lparr>versions = [v1],
          pages = [\<lparr>pg_id = 11, pg_docver = 10, pg_number = 1, pg_text = []\<rparr>,
                   \<lparr>pg_id = 12, pg_docver = 10, pg_number = 2, pg_text = []\<rparr>]\<rparr>"

text \<open>Nothing in the local cache, nothing in the bucket.\<close>

definition cold_world :: world where
  "cold_world = \<lparr>files = [], dirs = [], objects = [], faults = (\<lambda>_. None),
     error_body = (\<lambda>_. ''<Error/>''), calls = [],
     db = db1, rng = (\<lambda>n. 100 + n), drawn = 0, submitted = []\<rparr>"

text \<open>The source version is in the cache and in the bucket; page 21 is in the cache.\<close>

definition warm_world :: world where
  "warm_world = cold_world
     \<lparr>files := [(DocverPath 10 ''scan.pdf'', ''%PDF-v1''),
                (Child (PagePath 21) PAGE_PDF, ''%PDF-p1''),
                (PageTxtPath 21, ''hello'')],
      objects := [(DocverPath 10 ''scan.pdf'', ''%PDF-v1'')]\<rparr>"

text \<open>The source version is in the bucket, and the store denies access.\<close>

definition denied_world :: world where
  "denied_world = cold_world
     \<lparr>objects := [(DocverPath 10 ''scan.pdf'', ''%PDF-v1'')], faults := (\<lambda>_. Some Denied)\<rparr>"

text \<open>
  Page 21 is in the cache, page 22 in the bucket, page 23 nowhere.
\<close>

definition stale_world :: world where
  "stale_world = cold_world
     \<lparr>files := [(page_pdf_path 21, ''%PDF-p1'')],
      objects := [(page_pdf_path 22, ''%PDF-p2'')]\<rparr>"


text \<open>The same document, but its file is \<open>notes.txt\<close>; then with the file in the bucket.\<close>

definition notes_v1 :: docver where
  "notes_v1 = \<lparr>dv_id = 10, dv_document = 1, dv_number = 1,
          dv_file_name = ''notes.txt'', dv_lang = ''eng''\<rparr>"

definition notes_world :: world where
  "notes_world = cold_world\<lparr>db := \<lparr>versions = [notes_v1], pages = pages db1\<rparr>\<rparr>"

definition notes_uploaded_world :: world where
  "notes_uploaded_world = notes_world\<lparr>objects := [(DocverPath 10 ''notes.txt'', ''plain text'')]\<rparr>"

text \<open>The upload of the source version completes during the delay after the first attempt.\<close>

definition upload_arrives :: "nat \<Rightarrow> world \<Rightarrow> world" where
  "upload_arrives n w =
     (if n = 0 then w\<lparr>objects := AList.update (DocverPath 10 ''scan.pdf'') ''%PDF-v1'' (objects w)\<rparr>
      else w)"

text \<open>
  The graph of a two-page run, and a moment of its execution at which both page tasks
  have succeeded and the stitch task has started.
\<close>

definition graph1 :: workflow where
  "graph1 = build_workflow mirror_on ''d1'' 1 v1 100 [101, 102] ''eng''"

definition stitching :: progress where
  "stitching = submitted_state
     ((0, 0) := Started, (0, 1) := Started, (0, 0) := Succeeded, (0, 1) := Succeeded,
      (1, 0) := Started)"

text \<open>The first target page is in the cache, the second in the bucket.\<close>

definition pages_world :: world where
  "pages_world = cold_world
     \<lparr>files := [(page_pdf_path 101, ''%PDF-p1'')],
      objects := [(page_pdf_path 102, ''%PDF-p2'')]\<rparr>"

section \<open>Storage mirror: properties\<close>

lemma mirror_off_disabled: "\<not> is_enabled mirror_off"
  by (simp add: is_enabled_def mirror_off_def truthy_def)

lemma mirror_on_enabled: "is_enabled mirror_on"
  by (simp add: is_enabled_def mirror_on_def truthy_def)

text \<open>
  Claim C9. When the bucket or the credentials are not configured, each of the five
  mirror operations (download of a document version, upload of a page directory, upload
  of a file, download of a page text, batched download of page PDFs) returns normally
  and leaves the world as it was: no remote call is logged, and no file or directory
  changes.
\<close>

theorem disabled_mirror_is_noop:
  assumes "\<not> is_enabled st"
  shows "download_docver st docver_id file_name w = (Inr (), w)
       \<and> upload_page_dir st pid w = (Inr (), w)
       \<and> upload_file st rel_file_path w = (Inr (), w)
       \<and> download_page_txt st pid w = (Inr (), w)
       \<and> download_pdf_pages st target_page_ids w = (Inr (), w)"
  using assms
  by (simp add: download_docver_def upload_page_dir_def upload_file_def download_page_txt_def
      download_pdf_pages_def skip_if_s3_disabled_def)

theorem disabled_mirror_is_noop_witness:
  "\<not> is_enabled mirror_off
   \<and> download_docver mirror_off 10 ''scan.pdf'' warm_world = (Inr (), warm_world)
   \<and> upload_page_dir mirror_off 21 warm_world = (Inr (), warm_world)
   \<and> upload_file mirror_off (DocverPath 10 ''scan.pdf'') warm_world = (Inr (), warm_world)
   \<and> download_page_txt mirror_off 21 warm_world = (Inr (), warm_world)
   \<and> download_pdf_pages mirror_off [21, 22] warm_world = (Inr (), warm_world)"
  using disabled_mirror_is_noop [OF mirror_off_disabled] mirror_off_disabled by simp

text \<open>
  Claim C4, as stated, fails: the existence check answers \<open>False\<close> for a key whose
  object is in the bucket when the store answers the head request with status 403
  (access denied), not with not-found.
\<close>

theorem obj_exists_denied_counterexample:
  "map_of (objects denied_world) (DocverPath 10 ''scan.pdf'') = Some ''%PDF-v1''
   \<and> fst (head_object (DocverPath 10 ''scan.pdf'') denied_world) = Inl (ClientError 403)
   \<and> fst (obj_exists (DocverPath 10 ''scan.pdf'') denied_world) = Inr False"
  by (simp add: denied_world_def cold_world_def obj_exists_def head_object_def)

text \<open>
  Claim C4, amended. The existence check returns \<open>False\<close> exactly when the head request
  is answered with a client error, whatever its status: not-found (no fault and no
  object under the key) or any other, such as 403 when access is denied. It returns
  \<open>True\<close> exactly when the head request succeeds. An exception that is not a client
  error (a failed connection) is the only fault that propagates.
\<close>

theorem obj_exists_false_on_client_error:
  "(fst (obj_exists k w) = Inr False \<longleftrightarrow> (\<exists>c. fst (head_object k w) = Inl (ClientError c)))
   \<and> (fst (obj_exists k w) = Inr True \<longleftrightarrow> fst (head_object k w) = Inr ())
   \<and> (fst (obj_exists k w) = Inl e \<longleftrightarrow>
        fst (head_object k w) = Inl e \<and> (\<forall>c. e \<noteq> ClientError c))
   \<and> (fst (head_object k w) = Inl (ClientError 404) \<longleftrightarrow>
        faults w k = None \<and> map_of (objects w) k = None)
   \<and> (fst (head_object k w) = Inl (ClientError 403) \<longleftrightarrow> faults w k = Some Denied)"
  by (auto simp: obj_exists_def head_object_def split: option.splits fault.splits)

text \<open>
  Claim C3 does not hold of the code. With the mirror enabled and the version's file
  already in the local cache, \<open>download_docver\<close> skips only the existence check and
  still downloads the object; a second call right after the first downloads it again.
  When the cached file has no object in the bucket, the download raises.
\<close>

theorem download_docver_cached_still_downloads:
  "is_enabled mirror_on
   \<and> path_exists warm_world (DocverPath 10 ''scan.pdf'')
   \<and> calls warm_world = []
   \<and> calls (snd (download_docver mirror_on 10 ''scan.pdf'' warm_world))
       = [DownloadFile (DocverPath 10 ''scan.pdf'')]
   \<and> calls (snd (download_docver mirror_on 10 ''scan.pdf''
                    (snd (download_docver mirror_on 10 ''scan.pdf'' warm_world))))
       = [DownloadFile (DocverPath 10 ''scan.pdf''), DownloadFile (DocverPath 10 ''scan.pdf'')]
   \<and> fst (download_docver mirror_on 10 ''scan.pdf'' (warm_world\<lparr>objects := []\<rparr>))
       = Inl (ClientError 404)"
  by (simp add: is_enabled_def mirror_on_def truthy_def warm_world_def cold_world_def
      download_docver_def skip_if_s3_disabled_def path_exists_def is_file_def bnd_def ret_def
      mkdir_def s3_download_file_def write_bytes_def logged_def Let_def)

text \<open>
  Claim C2 does not hold of the code. With the mirror enabled, a new page whose text
  sidecar is neither in the local cache nor in the bucket makes \<open>download_page_txt\<close>
  raise, and the commit step fails with that error; the fallback to an empty text in
  \<open>update_db_task\<close> is reached only with the mirror disabled.
\<close>

theorem update_db_task_missing_sidecar_raises:
  "is_enabled mirror_on
   \<and> \<not> path_exists cold_world (PageTxtPath 21)
   \<and> map_of (objects cold_world) (PageTxtPath 21) = None
   \<and> fst (update_db_task mirror_on 1 ''eng'' 20 [21] cold_world)
        = Inl (ValueError ''not found on S3'')
   \<and> fst (update_db_task mirror_off 1 ''eng'' 20 [21] cold_world) = Inr ()
   \<and> map pg_text (get_pages (db (snd (update_db_task mirror_off 1 ''eng'' 20 [21] cold_world))) 20)
        = [[]]"
  by code_simp

section \<open>Batched fetch of page PDFs\<close>

lemma answer_cong:
  "faults w' = faults w \<Longrightarrow> objects w' = objects w \<Longrightarrow> error_body w' = error_body w
   \<Longrightarrow> answer w' = answer w"
  by (rule ext) (simp add: answer_def split: option.splits fault.splits)

lemma download_one_pdf_page_eq:
  "download_one_pdf_page pid w =
     (case answer w (page_pdf_path pid) of
        Inl e \<Rightarrow> (Inl e, logged (HttpGet (page_pdf_path pid)) w)
      | Inr resp \<Rightarrow>
          (Inr (), (logged (HttpGet (page_pdf_path pid)) w)
             \<lparr>dirs := List.insert (Parent (page_pdf_path pid)) (dirs w),
              files := AList.update (page_pdf_path pid) (body resp) (files w)\<rparr>))"
  by (simp add: download_one_pdf_page_def get_pdf_page_def http_get_def bnd_def ret_def
      mkdir_def write_bytes_def logged_def split: sum.splits)

lemma download_one_frame:
  assumes "download_one_pdf_page pid w = (r, w')"
  shows "answer w' = answer w"
  using assms
  by (auto simp: download_one_pdf_page_eq logged_def split: sum.splits intro!: answer_cong)


lemma page_pdf_path_inj [simp]: "(page_pdf_path p = page_pdf_path q) = (p = q)"
  by (simp add: page_pdf_path_def)

lemma gather_succeeds:
  assumes "\<forall>p\<in>set ps. \<not> isl (answer w (page_pdf_path p))"
  shows "\<exists>w'. gather (map download_one_pdf_page ps) w = (Inr (replicate (length ps) ()), w')
          \<and> answer w' = answer w
          \<and> calls w' = calls w @ map (\<lambda>p. HttpGet (page_pdf_path p)) ps
          \<and> (\<forall>p\<in>set ps. \<exists>resp. answer w (page_pdf_path p) = Inr resp
                 \<and> map_of (files w') (page_pdf_path p) = Some (body resp))
          \<and> (\<forall>k. k \<notin> page_pdf_path ` set ps \<longrightarrow> map_of (files w') k = map_of (files w) k)"
  using assms
proof (induction ps arbitrary: w)
  case Nil
  then show ?case by simp
next
  case (Cons p ps)
  from Cons.prems obtain resp where resp: "answer w (page_pdf_path p) = Inr resp"
    by (cases "answer w (page_pdf_path p)") auto
  define w1 where "w1 = (logged (HttpGet (page_pdf_path p)) w)
             \<lparr>dirs := List.insert (Parent (page_pdf_path p)) (dirs w),
              files := AList.update (page_pdf_path p) (body resp) (files w)\<rparr>"
  have one: "download_one_pdf_page p w = (Inr (), w1)"
    by (simp add: download_one_pdf_page_eq resp w1_def)
  have frame: "answer w1 = answer w"
    by (rule download_one_frame [OF one])
  have calls1: "calls w1 = calls w @ [HttpGet (page_pdf_path p)]"
    by (simp add: w1_def logged_def)
  have files1: "map_of (files w1) = (map_of (files w))(page_pdf_path p \<mapsto> body resp)"
    by (simp add: w1_def logged_def update_conv')
  from Cons.prems have "\<forall>q\<in>set ps. \<not> isl (answer w1 (page_pdf_path q))"
    by (simp add: frame)
  from Cons.IH [OF this] obtain w' where
    run: "gather (map download_one_pdf_page ps) w1 = (Inr (replicate (length ps) ()), w')"
    and fr: "answer w' = answer w1"
    and cl: "calls w' = calls w1 @ map (\<lambda>p. HttpGet (page_pdf_path p)) ps"
    and got: "\<forall>q\<in>set ps. \<exists>resp. answer w1 (page_pdf_path q) = Inr resp
                 \<and> map_of (files w') (page_pdf_path q) = Some (body resp)"
    and rest: "\<forall>k. k \<notin> page_pdf_path ` set ps \<longrightarrow> map_of (files w') k = map_of (files w1) k"
    by blast
  have "gather (map download_one_pdf_page (p # ps)) w
          = (Inr (replicate (length (p # ps)) ()), w')"
    using one run by simp
  moreover have "answer w' = answer w"
    using fr frame by simp
  moreover have "calls w' = calls w @ map (\<lambda>p. HttpGet (page_pdf_path p)) (p # ps)"
    using cl calls1 by simp
  moreover have "\<forall>q\<in>set (p # ps). \<exists>resp. answer w (page_pdf_path q) = Inr resp
                 \<and> map_of (files w') (page_pdf_path q) = Some (body resp)"
  proof
    fix q assume q: "q \<in> set (p # ps)"
    show "\<exists>resp. answer w (page_pdf_path q) = Inr resp
                 \<and> map_of (files w') (page_pdf_path q) = Some (body resp)"
    proof (cases "q \<in> set ps")
      case True
      with got frame show ?thesis by simp
    next
      case False
      with q have qp: "q = p" by simp
      from False have "page_pdf_path q \<notin> page_pdf_path ` set ps" by auto
      with rest have "map_of (files w') (page_pdf_path q) = map_of (files w1) (page_pdf_path q)"
        by blast
      with qp resp files1 show ?thesis by simp
    qed
  qed
  moreover have "\<forall>k. k \<notin> page_pdf_path ` set (p # ps)
                   \<longrightarrow> map_of (files w') k = map_of (files w) k"
    using rest files1 by auto
  ultimately show ?case by blast
qed


lemma download_pdf_pages_enabled:
  assumes "is_enabled st"
  shows "download_pdf_pages st ids w =
     (case gather (map download_one_pdf_page
                     (filter (\<lambda>pid. \<not> path_exists w (page_pdf_path pid)) ids)) w of
        (Inl e, w') \<Rightarrow> (Inl e, w')
      | (Inr xs, w') \<Rightarrow> (Inr (), w'))"
  using assms
  by (simp add: download_pdf_pages_def skip_if_s3_disabled_def download_many_pdf_pages_def
      supervisor_def bnd_def ret_def Let_def split: prod.splits sum.splits)






text \<open>
  Claim C10. In a batched fetch, the body of whatever response the GET of a missing
  page's signed URL returns is written as that page's PDF, whatever the status of the
  response: provided no fetch of the batch raises, the batch returns normally, and the
  page's file holds the body, be it the error document of a 404.
\<close>

theorem page_pdf_written_whatever_status:
  assumes "is_enabled st"
    and "p \<in> set ids" and "\<not> path_exists w (page_pdf_path p)"
    and "answer w (page_pdf_path p) = Inr (Response code data)"
    and "\<forall>q\<in>set ids. \<not> path_exists w (page_pdf_path q) \<longrightarrow> \<not> isl (answer w (page_pdf_path q))"
  shows "\<exists>w'. download_pdf_pages st ids w = (Inr (), w')
           \<and> map_of (files w') (page_pdf_path p) = Some data"
proof -
  let ?ps = "filter (\<lambda>pid. \<not> path_exists w (page_pdf_path pid)) ids"
  from assms(5) have "\<forall>q\<in>set ?ps. \<not> isl (answer w (page_pdf_path q))" by simp
  from gather_succeeds [OF this] obtain w' where
    run: "gather (map download_one_pdf_page ?ps) w = (Inr (replicate (length ?ps) ()), w')"
    and got: "\<forall>q\<in>set ?ps. \<exists>resp. answer w (page_pdf_path q) = Inr resp
                 \<and> map_of (files w') (page_pdf_path q) = Some (body resp)"
    by blast
  from assms(2,3) have "p \<in> set ?ps" by simp
  with got assms(4) have "map_of (files w') (page_pdf_path p) = Some data" by fastforce
  moreover have "download_pdf_pages st ids w = (Inr (), w')"
    by (simp add: download_pdf_pages_enabled [OF assms(1)] run)
  ultimately show ?thesis by blast
qed

lemma stale_eval:
  "\<not> path_exists stale_world (page_pdf_path 23)"
  "\<not> path_exists stale_world (page_pdf_path 22)"
  "path_exists stale_world (page_pdf_path 21)"
  "answer stale_world (page_pdf_path 23) = Inr (Response 404 ''<Error/>'')"
  "answer stale_world (page_pdf_path 22) = Inr (Response 200 ''%PDF-p2'')"
  by (simp_all add: stale_world_def cold_world_def path_exists_def is_file_def answer_def
      page_pdf_path_def)

theorem page_pdf_written_whatever_status_witness:
  "is_enabled mirror_on
   \<and> \<not> path_exists stale_world (page_pdf_path 23)
   \<and> answer stale_world (page_pdf_path 23) = Inr (Response 404 ''<Error/>'')
   \<and> (\<exists>w'. download_pdf_pages mirror_on [21, 22, 23] stale_world = (Inr (), w')
           \<and> map_of (files w') (page_pdf_path 23) = Some ''<Error/>'')"
proof -
  have "\<forall>q\<in>set [21, 22, 23]. \<not> path_exists stale_world (page_pdf_path q)
          \<longrightarrow> \<not> isl (answer stale_world (page_pdf_path q))"
    by (simp add: stale_eval)
  from page_pdf_written_whatever_status [OF mirror_on_enabled _ stale_eval(1) stale_eval(4) this]
  show ?thesis by (simp add: mirror_on_enabled stale_eval)
qed

section \<open>Top-level task: properties\<close>

lemma uuid4s_eq:
  "uuid4s n w = (map (\<lambda>i. rng w (drawn w + i)) [0..<n], w\<lparr>drawn := drawn w + n\<rparr>)"
proof (induction n arbitrary: w)
  case 0
  then show ?case by simp
next
  case (Suc n)
  have "map (\<lambda>i. rng w (drawn w + i)) [0..<Suc n]
          = rng w (drawn w) # map (\<lambda>i. rng w (Suc (drawn w + i))) [0..<n]"
    by (simp add: upt_conv_Cons map_Suc_upt [symmetric] del: upt_Suc)
  then show ?case
    by (simp add: Suc.IH uuid4_def del: upt_Suc)
qed

lemma allocate_eq:
  "allocate n w =
     ((rng w (drawn w), map (\<lambda>i. rng w (Suc (drawn w) + i)) [0..<n]),
      w\<lparr>drawn := Suc (drawn w) + n\<rparr>)"
  by (simp add: allocate_def uuid4_def uuid4s_eq)

lemma download_docver_frame:
  "submitted (snd (download_docver st d f w)) = submitted w
   \<and> db (snd (download_docver st d f w)) = db w
   \<and> rng (snd (download_docver st d f w)) = rng w
   \<and> drawn (snd (download_docver st d f w)) = drawn w"
  by (simp add: download_docver_def skip_if_s3_disabled_def bnd_def ret_def raise_def
      obj_exists_def head_object_def mkdir_def s3_download_file_def write_bytes_def logged_def
      Let_def split: option.splits fault.splits)

lemma download_docver_not_found_iff:
  "fst (download_docver st d f w) = Inl S3DocumentNotFound \<longleftrightarrow>
     is_enabled st \<and> \<not> path_exists w (DocverPath d f)
     \<and> fst (obj_exists (DocverPath d f) w) = Inr False"
  by (auto simp: download_docver_def skip_if_s3_disabled_def bnd_def ret_def raise_def
      obj_exists_def head_object_def mkdir_def s3_download_file_def write_bytes_def logged_def
      Let_def split: option.splits fault.splits)


lemma download_docver_drawn:
  "download_docver st d f (w\<lparr>drawn := n\<rparr>)
     = (fst (download_docver st d f w), (snd (download_docver st d f w))\<lparr>drawn := n\<rparr>)"
  by (simp add: download_docver_def skip_if_s3_disabled_def bnd_def ret_def raise_def
      obj_exists_def head_object_def mkdir_def s3_download_file_def write_bytes_def logged_def
      path_exists_def is_file_def Let_def split: option.splits fault.splits)

lemma obj_exists_false_iff:
  "fst (obj_exists k w) = Inr False \<longleftrightarrow>
     faults w k = Some Denied \<or> faults w k = None \<and> map_of (objects w) k = None"
  by (auto simp: obj_exists_def head_object_def split: option.splits fault.splits)

lemma attempt_unfold:
  assumes "parse_uuid ext document_id = Some doc_id"
    and "get_last_version (db w) doc_id = Inr doc_ver"
  shows "ocr_document_task ext st document_id lang w =
     (case allocate (length (get_pages (db w) (dv_id doc_ver))) w of
        ((tv, tps), w2) \<Rightarrow>
          (case download_docver st (dv_id doc_ver) (dv_file_name doc_ver) w of
             (Inl e, w3) \<Rightarrow> (Inl e, w3\<lparr>drawn := drawn w2\<rparr>)
           | (Inr u, w3) \<Rightarrow>
               if guess_type ext (DocverPath (dv_id doc_ver) (dv_file_name doc_ver))
                    \<notin> {Some ''application/pdf'', Some ''application/image''}
               then (Inl (ValueError ''Unsupported format for document''),
                     w3\<lparr>drawn := drawn w2\<rparr>)
               else (Inr (), w3\<lparr>drawn := drawn w2,
                                 submitted := submitted w3 @
                                   [build_workflow st document_id doc_id doc_ver tv tps
                                      (lower ext lang)]\<rparr>)))"
  using assms
  by (simp add: ocr_document_task_def allocate_eq download_docver_drawn apply_async_def
      split: prod.splits sum.splits)

lemma after_attempt_retry_iff:
  "after_attempt retries r = Retry d \<longleftrightarrow> r = Inl S3DocumentNotFound \<and> retries < 6 \<and> d = 10"
  by (auto simp: after_attempt_def autoretry_for_def max_retries_def countdown_def
      split: sum.splits)

lemma after_attempt_gives_up_iff:
  "after_attempt retries (Inl S3DocumentNotFound) = Failure S3DocumentNotFound \<longleftrightarrow> 6 \<le> retries"
  by (auto simp: after_attempt_def autoretry_for_def max_retries_def countdown_def)

lemma after_attempt_final:
  "after_attempt retries r \<noteq> Retry d \<Longrightarrow>
     (after_attempt retries r = Failure S3DocumentNotFound \<longrightarrow> 6 \<le> retries)"
  by (auto simp: after_attempt_def autoretry_for_def max_retries_def countdown_def
      split: sum.splits if_splits)

lemma run_ocr_document_budget:
  "run_ocr_document ext st between document_id lang retries w = (v, ds, w')
   \<Longrightarrow> length ds \<le> 6 - retries \<and> set ds \<subseteq> {10} \<and> (\<forall>d. v \<noteq> Retry d)
       \<and> (v = Failure S3DocumentNotFound \<longrightarrow> length ds = 6 - retries)"
proof (induction ext st between document_id lang retries w arbitrary: v ds w'
    rule: run_ocr_document.induct)
  case (1 ext st between document_id lang retries w)
  obtain r w1 where att: "ocr_document_task ext st document_id lang w = (r, w1)"
    by (cases "ocr_document_task ext st document_id lang w")
  show ?case
  proof (cases "after_attempt retries r")
    case Success
    with att "1.prems" show ?thesis
      by (simp add: run_ocr_document.simps [of ext st between document_id lang retries w])
  next
    case (Failure e)
    with att "1.prems" have v: "v = Failure e" and ds: "ds = []"
      by (simp_all add: run_ocr_document.simps [of ext st between document_id lang retries w])
    from Failure have "e = S3DocumentNotFound \<longrightarrow> 6 \<le> retries"
      by (auto simp: after_attempt_def autoretry_for_def max_retries_def
          split: sum.splits if_splits)
    with v ds show ?thesis by simp
  next
    case (Retry d)
    then have d: "d = 10" and lt: "retries < 6"
      by (simp_all add: after_attempt_retry_iff)
    obtain v2 ds2 w2 where rec: "run_ocr_document ext st between document_id lang (Suc retries)
                       (between retries w1) = (v2, ds2, w2)"
      by (cases "run_ocr_document ext st between document_id lang (Suc retries)
                       (between retries w1)") auto
    from "1.IH" [OF att [symmetric] Retry rec]
    have ih: "length ds2 \<le> 6 - Suc retries \<and> set ds2 \<subseteq> {10} \<and> (\<forall>d. v2 \<noteq> Retry d)
       \<and> (v2 = Failure S3DocumentNotFound \<longrightarrow> length ds2 = 6 - Suc retries)" .
    from att Retry rec "1.prems" have "v = v2" and "ds = d # ds2"
      by (simp_all add: run_ocr_document.simps [of ext st between document_id lang retries w])
    with ih d lt show ?thesis by auto
  qed
qed

lemma cold_lookup:
  "parse_uuid stdlib ''d1'' = Some 1"
  "get_last_version (db cold_world) 1 = Inr v1"
  "get_last_version (db denied_world) 1 = Inr v1"
  "get_last_version (db warm_world) 1 = Inr v1"
  by (simp_all add: stdlib_def get_last_version_def cold_world_def denied_world_def
      warm_world_def db1_def v1_def)

lemma notes_lookup:
  "get_last_version (db notes_world) 1 = Inr notes_v1"
  by (simp add: get_last_version_def notes_world_def cold_world_def notes_v1_def)

text \<open>
  Claim C1, as stated, fails: a retry does not reuse the identifiers of the first
  attempt. The first attempt draws 100 and 101, 102 and ends with the retried error; the
  second attempt draws 103 and 104, 105, and the graph it submits carries these.
\<close>

theorem retry_draws_fresh_ids_counterexample:
  "fst (ocr_document_task stdlib mirror_on ''d1'' ''eng'' cold_world) = Inl S3DocumentNotFound
   \<and> after_attempt 0 (Inl S3DocumentNotFound) = Retry 10
   \<and> fst (allocate 2 cold_world) = (100, [101, 102])
   \<and> fst (allocate 2 (upload_arrives 0
              (snd (ocr_document_task stdlib mirror_on ''d1'' ''eng'' cold_world))))
        = (103, [104, 105])
   \<and> fst (run_ocr_document stdlib mirror_on upload_arrives ''d1'' ''eng'' 0 cold_world) = Success
   \<and> submitted (snd (snd (run_ocr_document stdlib mirror_on upload_arrives ''d1'' ''eng'' 0
                            cold_world)))
        = [build_workflow mirror_on ''d1'' 1 v1 103 [104, 105] ''eng'']"
  by code_simp

text \<open>
  Claim C5, as stated, fails in both directions. With the mirror disabled, a source
  version absent locally and remotely is not rescheduled: the task goes on and submits
  the graph. With the mirror enabled and the source version in the bucket, the task is
  rescheduled when the store answers the head request with access denied.
\<close>

theorem retry_iff_absent_counterexample:
  "\<not> path_exists cold_world (DocverPath 10 ''scan.pdf'')
   \<and> map_of (objects cold_world) (DocverPath 10 ''scan.pdf'') = None
   \<and> fst (ocr_document_task stdlib mirror_off ''d1'' ''eng'' cold_world) = Inr ()
   \<and> fst (run_ocr_document stdlib mirror_off (\<lambda>n w. w) ''d1'' ''eng'' 0 cold_world) = Success
   \<and> fst (snd (run_ocr_document stdlib mirror_off (\<lambda>n w. w) ''d1'' ''eng'' 0 cold_world)) = []
   \<and> map_of (objects denied_world) (DocverPath 10 ''scan.pdf'') = Some ''%PDF-v1''
   \<and> fst (ocr_document_task stdlib mirror_on ''d1'' ''eng'' denied_world) = Inl S3DocumentNotFound
   \<and> after_attempt 0 (Inl S3DocumentNotFound) = Retry 10"
  by code_simp

text \<open>
  Claim C7, as stated, fails: the source version is fetched before its type is looked at.
  A version of an unsupported type that is absent locally and remotely makes the task
  end with the retried error, not with the unsupported-format error; it is rescheduled
  six times and then fails with \<open>S3DocumentNotFound\<close>.
\<close>

theorem unsupported_format_retried_counterexample:
  "get_last_version (db notes_world) 1 = Inr notes_v1
   \<and> guess_type stdlib (DocverPath (dv_id notes_v1) (dv_file_name notes_v1)) = Some ''text/plain''
   \<and> fst (ocr_document_task stdlib mirror_on ''d1'' ''eng'' notes_world) = Inl S3DocumentNotFound
   \<and> after_attempt 0 (fst (ocr_document_task stdlib mirror_on ''d1'' ''eng'' notes_world))
        = Retry 10
   \<and> fst (run_ocr_document stdlib mirror_on (\<lambda>n w. w) ''d1'' ''eng'' 0 notes_world)
        = Failure S3DocumentNotFound
   \<and> fst (snd (run_ocr_document stdlib mirror_on (\<lambda>n w. w) ''d1'' ''eng'' 0 notes_world))
        = [10, 10, 10, 10, 10, 10]"
  by code_simp

text \<open>
  Claim C5, amended. An attempt of the top-level task that has found its source version
  in the metadata store ends with \<open>S3DocumentNotFound\<close> exactly when the mirror is
  enabled, the version's file is not in the local cache and the existence check
  answers \<open>False\<close>; with the mirror enabled and the store answering normally for the
  key, that is exactly when the file is absent both locally and remotely; with the
  mirror disabled, never. The scheduler reschedules an attempt exactly when it ended
  with that error and fewer than 6 retries were made, with a delay of 10 seconds; at
  6 retries the same error is the task's failure. So a run has at most 6 delays, each of
  10 seconds, never ends rescheduled, and fails for a missing source only after all
  6 retries.
\<close>

theorem top_level_retry_policy:
  assumes "parse_uuid ext document_id = Some doc_id"
    and "get_last_version (db w) doc_id = Inr doc_ver"
    and "src = DocverPath (dv_id doc_ver) (dv_file_name doc_ver)"
  shows "(fst (ocr_document_task ext st document_id lang w) = Inl S3DocumentNotFound \<longleftrightarrow>
            is_enabled st \<and> \<not> path_exists w src \<and> fst (obj_exists src w) = Inr False)
       \<and> (is_enabled st \<and> faults w src = None \<longrightarrow>
            (fst (ocr_document_task ext st document_id lang w) = Inl S3DocumentNotFound \<longleftrightarrow>
               \<not> path_exists w src \<and> map_of (objects w) src = None))
       \<and> (\<not> is_enabled st \<longrightarrow>
            fst (ocr_document_task ext st document_id lang w) \<noteq> Inl S3DocumentNotFound)
       \<and> (after_attempt retries r = Retry d \<longleftrightarrow>
            r = Inl S3DocumentNotFound \<and> retries < 6 \<and> d = 10)
       \<and> (after_attempt retries (Inl S3DocumentNotFound) = Failure S3DocumentNotFound \<longleftrightarrow>
            6 \<le> retries)
       \<and> (run_ocr_document ext st between document_id lang 0 w = (v, ds, w') \<longrightarrow>
            length ds \<le> 6 \<and> set ds \<subseteq> {10} \<and> (\<forall>d. v \<noteq> Retry d)
            \<and> (v = Failure S3DocumentNotFound \<longrightarrow> length ds = 6))"
proof -
  have nf: "fst (ocr_document_task ext st document_id lang w) = Inl S3DocumentNotFound \<longleftrightarrow>
            fst (download_docver st (dv_id doc_ver) (dv_file_name doc_ver) w)
              = Inl S3DocumentNotFound"
    by (simp add: attempt_unfold [OF assms(1,2)] allocate_eq split: prod.splits sum.splits)
  have a: "fst (ocr_document_task ext st document_id lang w) = Inl S3DocumentNotFound \<longleftrightarrow>
            is_enabled st \<and> \<not> path_exists w src \<and> fst (obj_exists src w) = Inr False"
    by (simp add: nf download_docver_not_found_iff assms(3))
  have b: "is_enabled st \<and> faults w src = None \<longrightarrow>
            (fst (ocr_document_task ext st document_id lang w) = Inl S3DocumentNotFound \<longleftrightarrow>
               \<not> path_exists w src \<and> map_of (objects w) src = None)"
    by (auto simp: a obj_exists_false_iff)
  have c: "\<not> is_enabled st \<longrightarrow>
            fst (ocr_document_task ext st document_id lang w) \<noteq> Inl S3DocumentNotFound"
    by (simp add: a)
  have d: "run_ocr_document ext st between document_id lang 0 w = (v, ds, w') \<longrightarrow>
            length ds \<le> 6 \<and> set ds \<subseteq> {10} \<and> (\<forall>d. v \<noteq> Retry d)
            \<and> (v = Failure S3DocumentNotFound \<longrightarrow> length ds = 6)"
    using run_ocr_document_budget [of ext st between document_id lang 0 w v ds w'] by simp
  from a b c d after_attempt_retry_iff [of retries r d] after_attempt_gives_up_iff [of retries]
  show ?thesis by blast
qed


lemma notes_uploaded_lookup:
  "get_last_version (db notes_uploaded_world) 1 = Inr notes_v1"
  by (simp add: get_last_version_def notes_uploaded_world_def notes_world_def cold_world_def
      notes_v1_def)

theorem top_level_retry_policy_witness:
  "parse_uuid stdlib ''d1'' = Some 1
   \<and> get_last_version (db cold_world) 1 = Inr v1
   \<and> is_enabled mirror_on
   \<and> faults cold_world (DocverPath 10 ''scan.pdf'') = None
   \<and> \<not> path_exists cold_world (DocverPath 10 ''scan.pdf'')
   \<and> map_of (objects cold_world) (DocverPath 10 ''scan.pdf'') = None
   \<and> fst (ocr_document_task stdlib mirror_on ''d1'' ''eng'' cold_world) = Inl S3DocumentNotFound
   \<and> after_attempt 0 (Inl S3DocumentNotFound) = Retry 10
   \<and> \<not> is_enabled mirror_off
   \<and> fst (ocr_document_task stdlib mirror_off ''d1'' ''eng'' cold_world) \<noteq> Inl S3DocumentNotFound
   \<and> fst (run_ocr_document stdlib mirror_on (\<lambda>n w. w) ''d1'' ''eng'' 0 cold_world)
        = Failure S3DocumentNotFound
   \<and> length (fst (snd (run_ocr_document stdlib mirror_on (\<lambda>n w. w) ''d1'' ''eng'' 0 cold_world)))
        = 6"
proof -
  have src: "DocverPath 10 ''scan.pdf'' = DocverPath (dv_id v1) (dv_file_name v1)"
    by (simp add: v1_def)
  have env: "faults cold_world (DocverPath 10 ''scan.pdf'') = None"
    "\<not> path_exists cold_world (DocverPath 10 ''scan.pdf'')"
    "map_of (objects cold_world) (DocverPath 10 ''scan.pdf'') = None"
    by (simp_all add: cold_world_def path_exists_def is_file_def)
  have run: "fst (run_ocr_document stdlib mirror_on (\<lambda>n w. w) ''d1'' ''eng'' 0 cold_world)
        = Failure S3DocumentNotFound"
    by code_simp
  then obtain ds w' where full:
    "run_ocr_document stdlib mirror_on (\<lambda>n w. w) ''d1'' ''eng'' 0 cold_world
       = (Failure S3DocumentNotFound, ds, w')"
    by (cases "run_ocr_document stdlib mirror_on (\<lambda>n w. w) ''d1'' ''eng'' 0 cold_world") auto
  note on = top_level_retry_policy [OF cold_lookup(1) cold_lookup(2) src,
      of mirror_on "''eng''" 0 "Inl S3DocumentNotFound" 10 "\<lambda>n w. w"
         "Failure S3DocumentNotFound" ds w']
  note off = top_level_retry_policy [OF cold_lookup(1) cold_lookup(2) src,
      of mirror_off "''eng''" 0 "Inl S3DocumentNotFound" 10 "\<lambda>n w. w"
         "Failure S3DocumentNotFound" ds w']
  from on off full env mirror_on_enabled mirror_off_disabled cold_lookup run
  show ?thesis by simp
qed

text \<open>
  Claim C7, amended. For a source version whose guessed type is neither
  \<open>application/pdf\<close> nor \<open>application/image\<close>, an attempt of the top-level task always
  ends with an error and submits no graph, so no per-page task; once the fetch of the
  source version has returned normally, the error is the unsupported-format error, on
  which the scheduler never reschedules.
\<close>

theorem unsupported_format_fails_without_tasks:
  assumes "parse_uuid ext document_id = Some doc_id"
    and "get_last_version (db w) doc_id = Inr doc_ver"
    and "guess_type ext (DocverPath (dv_id doc_ver) (dv_file_name doc_ver))
           \<notin> {Some ''application/pdf'', Some ''application/image''}"
  shows "submitted (snd (ocr_document_task ext st document_id lang w)) = submitted w
       \<and> isl (fst (ocr_document_task ext st document_id lang w))
       \<and> (fst (download_docver st (dv_id doc_ver) (dv_file_name doc_ver) w) = Inr () \<longrightarrow>
            fst (ocr_document_task ext st document_id lang w)
              = Inl (ValueError ''Unsupported format for document''))
       \<and> after_attempt retries (Inl (ValueError ''Unsupported format for document''))
            = Failure (ValueError ''Unsupported format for document'')"
proof -
  obtain r0 w3 where dl: "download_docver st (dv_id doc_ver) (dv_file_name doc_ver) w = (r0, w3)"
    by (cases "download_docver st (dv_id doc_ver) (dv_file_name doc_ver) w")
  have fr: "submitted w3 = submitted w"
    using download_docver_frame [of st "dv_id doc_ver" "dv_file_name doc_ver" w] dl by simp
  have "submitted (snd (ocr_document_task ext st document_id lang w)) = submitted w"
    using assms(3) fr
    by (simp add: attempt_unfold [OF assms(1,2)] allocate_eq dl split: sum.splits)
  moreover have "isl (fst (ocr_document_task ext st document_id lang w))"
    using assms(3)
    by (simp add: attempt_unfold [OF assms(1,2)] allocate_eq dl split: sum.splits)
  moreover have "fst (download_docver st (dv_id doc_ver) (dv_file_name doc_ver) w) = Inr () \<longrightarrow>
            fst (ocr_document_task ext st document_id lang w)
              = Inl (ValueError ''Unsupported format for document'')"
    using assms(3)
    by (simp add: attempt_unfold [OF assms(1,2)] allocate_eq dl split: sum.splits)
  moreover have "after_attempt retries (Inl (ValueError ''Unsupported format for document''))
            = Failure (ValueError ''Unsupported format for document'')"
    by (simp add: after_attempt_def autoretry_for_def)
  ultimately show ?thesis by blast
qed

theorem unsupported_format_fails_without_tasks_witness:
  "parse_uuid stdlib ''d1'' = Some 1
   \<and> get_last_version (db notes_uploaded_world) 1 = Inr notes_v1
   \<and> guess_type stdlib (DocverPath (dv_id notes_v1) (dv_file_name notes_v1))
        \<notin> {Some ''application/pdf'', Some ''application/image''}
   \<and> fst (download_docver mirror_on (dv_id notes_v1) (dv_file_name notes_v1) notes_uploaded_world)
        = Inr ()
   \<and> submitted (snd (ocr_document_task stdlib mirror_on ''d1'' ''eng'' notes_uploaded_world)) = []
   \<and> fst (ocr_document_task stdlib mirror_on ''d1'' ''eng'' notes_uploaded_world)
        = Inl (ValueError ''Unsupported format for document'')
   \<and> after_attempt 0 (Inl (ValueError ''Unsupported format for document''))
        = Failure (ValueError ''Unsupported format for document'')"
proof -
  have ty: "guess_type stdlib (DocverPath (dv_id notes_v1) (dv_file_name notes_v1))
        \<notin> {Some ''application/pdf'', Some ''application/image''}"
    by (simp add: stdlib_def notes_v1_def)
  have dl: "fst (download_docver mirror_on (dv_id notes_v1) (dv_file_name notes_v1)
                   notes_uploaded_world) = Inr ()"
    by code_simp
  have sub: "submitted notes_uploaded_world = []"
    by (simp add: notes_uploaded_world_def notes_world_def cold_world_def)
  from unsupported_format_fails_without_tasks [OF cold_lookup(1) notes_uploaded_lookup ty,
      of mirror_on "''eng''" 0] dl ty sub cold_lookup(1) notes_uploaded_lookup
  show ?thesis by simp
qed

text \<open>
  Claim C1, amended. Each attempt of the top-level task draws the target version
  identifier and the target page identifiers, one per source page, from the random
  source, before anything else it does to the world. An attempt that returns normally
  submits one graph, built from exactly these identifiers, so they are fixed before any
  task of the graph runs; an attempt that raises submits nothing. Every attempt moves the
  random source on, so a retry draws identifiers of its own.
\<close>

theorem target_ids_drawn_by_each_attempt:
  assumes "parse_uuid ext document_id = Some doc_id"
    and "get_last_version (db w) doc_id = Inr doc_ver"
    and "n = length (get_pages (db w) (dv_id doc_ver))"
    and "allocate n w = ((tv, tps), w2)"
    and "ocr_document_task ext st document_id lang w = (r, w')"
  shows "tv = rng w (drawn w)
       \<and> tps = map (\<lambda>i. rng w (Suc (drawn w) + i)) [0..<n]
       \<and> drawn w' = Suc (drawn w) + n
       \<and> (r = Inr () \<longrightarrow>
            submitted w' = submitted w @
              [build_workflow st document_id doc_id doc_ver tv tps (lower ext lang)])
       \<and> (isl r \<longrightarrow> submitted w' = submitted w)"
proof -
  from assms(4) have ids: "tv = rng w (drawn w)"
    "tps = map (\<lambda>i. rng w (Suc (drawn w) + i)) [0..<n]"
    by (simp_all add: allocate_eq)
  obtain r0 w3 where dl: "download_docver st (dv_id doc_ver) (dv_file_name doc_ver) w = (r0, w3)"
    by (cases "download_docver st (dv_id doc_ver) (dv_file_name doc_ver) w")
  have fr: "submitted w3 = submitted w" "drawn w3 = drawn w"
    using download_docver_frame [of st "dv_id doc_ver" "dv_file_name doc_ver" w] dl by simp_all
  from assms(5) fr ids have "drawn w' = Suc (drawn w) + n
       \<and> (r = Inr () \<longrightarrow>
            submitted w' = submitted w @
              [build_workflow st document_id doc_id doc_ver tv tps (lower ext lang)])
       \<and> (isl r \<longrightarrow> submitted w' = submitted w)"
    by (auto simp: attempt_unfold [OF assms(1,2)] allocate_eq assms(3) dl
        split: sum.splits if_splits)
  with ids show ?thesis by simp
qed


theorem target_ids_drawn_by_each_attempt_witness:
  "parse_uuid stdlib ''d1'' = Some 1
   \<and> get_last_version (db warm_world) 1 = Inr v1
   \<and> length (get_pages (db warm_world) (dv_id v1)) = 2
   \<and> fst (allocate 2 warm_world) = (100, [101, 102])
   \<and> fst (ocr_document_task stdlib mirror_on ''d1'' ''eng'' warm_world) = Inr ()
   \<and> drawn (snd (ocr_document_task stdlib mirror_on ''d1'' ''eng'' warm_world)) = 3
   \<and> submitted (snd (ocr_document_task stdlib mirror_on ''d1'' ''eng'' warm_world))
        = [build_workflow mirror_on ''d1'' 1 v1 100 [101, 102] ''eng'']"
proof -
  have n: "2 = length (get_pages (db warm_world) (dv_id v1))"
    by code_simp
  have ids: "fst (allocate 2 warm_world) = (100, [101, 102])"
    by code_simp
  then have al: "allocate 2 warm_world = ((100, [101, 102]), snd (allocate 2 warm_world))"
    by (simp add: prod_eq_iff)
  have r: "fst (ocr_document_task stdlib mirror_on ''d1'' ''eng'' warm_world) = Inr ()"
    by code_simp
  then have att: "ocr_document_task stdlib mirror_on ''d1'' ''eng'' warm_world
          = (Inr (), snd (ocr_document_task stdlib mirror_on ''d1'' ''eng'' warm_world))"
    by (simp add: prod_eq_iff)
  have w: "drawn warm_world = 0" "submitted warm_world = []" "lower stdlib ''eng'' = ''eng''"
    by (simp_all add: warm_world_def cold_world_def stdlib_def)
  from target_ids_drawn_by_each_attempt [OF cold_lookup(1) cold_lookup(4) n al att] n ids r w
    cold_lookup
  show ?thesis by simp
qed

section \<open>Task graph: properties\<close>

lemma ready_other_stage:
  assumes "ready workflow s a" and "\<not> i < a"
  shows "ready workflow (s((i, j) := x)) a"
  using assms by (auto simp: ready_def)

lemma ready_blocks:
  assumes "ready workflow s a" and "in_graph workflow (i, j)" and "s (i, j) \<noteq> Succeeded"
  shows "\<not> i < a"
  using assms by (auto simp: ready_def in_graph_def)

lemma ready_succeed:
  assumes "ready workflow s a"
  shows "ready workflow (s((i, j) := Succeeded)) a"
  using assms by (auto simp: ready_def)

lemma step_settled:
  assumes "step workflow s s'" and "settled workflow s"
  shows "settled workflow s'"
  using assms
proof (induction rule: step.induct)
  case (start i j s)
  show ?case
    unfolding settled_def
  proof (intro allI impI)
    fix a b assume nz: "(s((i, j) := Started)) (a, b) \<noteq> Pending"
    have "ready workflow s a"
    proof (cases "(a, b) = (i, j)")
      case True
      with start.hyps show ?thesis by simp
    next
      case False
      with nz have "s (a, b) \<noteq> Pending" by auto
      with start.prems show ?thesis unfolding settled_def by blast
    qed
    moreover from this start.hyps have "\<not> i < a"
      by (auto dest: ready_blocks)
    ultimately show "ready workflow (s((i, j) := Started)) a"
      by (rule ready_other_stage)
  qed
next
  case (succeed i j s)
  show ?case
    unfolding settled_def
  proof (intro allI impI)
    fix a b assume nz: "(s((i, j) := Succeeded)) (a, b) \<noteq> Pending"
    have "s (a, b) \<noteq> Pending \<or> (a, b) = (i, j)"
      using nz by (auto split: if_splits)
    with succeed.hyps have "s (a, b) \<noteq> Pending" by auto
    with succeed.prems have "ready workflow s a"
      unfolding settled_def by blast
    then show "ready workflow (s((i, j) := Succeeded)) a"
      by (rule ready_succeed)
  qed
next
  case (fail i j s)
  show ?case
    unfolding settled_def
  proof (intro allI impI)
    fix a b assume nz: "(s((i, j) := Failed)) (a, b) \<noteq> Pending"
    have "s (a, b) \<noteq> Pending \<or> (a, b) = (i, j)"
      using nz by (auto split: if_splits)
    with fail.hyps have "s (a, b) \<noteq> Pending" by auto
    with fail.prems have r: "ready workflow s a"
      unfolding settled_def by blast
    moreover from r fail.hyps have "\<not> i < a"
      by (auto dest: ready_blocks)
    ultimately show "ready workflow (s((i, j) := Failed)) a"
      by (rule ready_other_stage)
  qed
qed

lemma reachable_settled:
  assumes "reachable workflow s"
  shows "settled workflow s"
  using assms unfolding reachable_def
proof (induction rule: rtranclp_induct)
  case base
  show ?case by (simp add: settled_def submitted_state_def)
next
  case (step y z)
  then show ?case by (auto intro: step_settled)
qed

lemma per_page_nth:
  assumes "j < length tps"
  shows "per_page_ocr_tasks st doc_ver tv tps lang ! j =
     (OcrPage \<lparr>op_doc_id = dv_id doc_ver, op_doc_ver_id = dv_id doc_ver,
               op_page_number = j + 1, op_target_docver_id = tv,
               op_target_page_id = tps ! j, op_lang = lang, op_preview_width = 300\<rparr>,
      prefixed st OCR)"
  using assms by (simp add: per_page_ocr_tasks_def nth_enumerate_eq)

lemma per_page_length [simp]:
  "length (per_page_ocr_tasks st doc_ver tv tps lang) = length tps"
  by (simp add: per_page_ocr_tasks_def)

lemma read_all_Some:
  assumes "read_all w ps = Some bs"
  shows "length bs = length ps \<and> (\<forall>j < length ps. map_of (files w) (ps ! j) = Some (bs ! j))"
  using assms
proof (induction ps arbitrary: bs)
  case Nil
  then show ?case by simp
next
  case (Cons p ps)
  from Cons.prems obtain b bs' where b: "map_of (files w) p = Some b"
    and rest: "read_all w ps = Some bs'" and bs: "bs = b # bs'"
    by (auto split: option.splits)
  from Cons.IH [OF rest] have ih: "length bs' = length ps"
    "\<forall>j < length ps. map_of (files w) (ps ! j) = Some (bs' ! j)"
    by simp_all
  show ?case
  proof (intro conjI allI impI)
    show "length bs = length (p # ps)" using ih bs by simp
  next
    fix j assume "j < length (p # ps)"
    then show "map_of (files w) ((p # ps) ! j) = Some (bs ! j)"
      using ih b bs by (cases j) auto
  qed
qed

lemma upload_file_files:
  "files (snd (upload_file st p w)) = files w"
  by (simp add: upload_file_def skip_if_s3_disabled_def ret_def s3_upload_file_def logged_def
      split: option.splits fault.splits)

lemma stitch_output:
  assumes "stitch_pages_task st doc_ver_id tv tps wa = (Inr (), wb)"
  shows "\<exists>dv bs. get_doc_ver (db wa) doc_ver_id = Inr dv
           \<and> length bs = length tps
           \<and> (\<forall>j < length tps. map_of (files wb) (page_pdf_path (tps ! j)) = Some (bs ! j))
           \<and> map_of (files wb) (DocverPath tv (dv_file_name dv)) = Some (concat bs)"
proof -
  from assms obtain dv where dv: "get_doc_ver (db wa) doc_ver_id = Inr dv"
    by (cases "get_doc_ver (db wa) doc_ver_id") (auto simp: stitch_pages_task_def)
  let ?dst = "DocverPath tv (dv_file_name dv)"
  obtain r1 w1 where dl: "download_pdf_pages st tps wa = (r1, w1)"
    by (cases "download_pdf_pages st tps wa")
  from assms dv dl obtain bs where rd: "read_all w1 (map page_pdf_path tps) = Some bs"
    and up: "upload_file st ?dst (w1\<lparr>files := AList.update ?dst (concat bs) (files w1)\<rparr>)
               = (Inr (), wb)"
    by (auto simp: stitch_pages_task_def bnd_def stitch_pdf_def write_bytes_def
        split: sum.splits option.splits)
  from up have fb: "files wb = AList.update ?dst (concat bs) (files w1)"
    using upload_file_files [of st ?dst "w1\<lparr>files := AList.update ?dst (concat bs) (files w1)\<rparr>"]
    by simp
  from read_all_Some [OF rd] have len: "length bs = length tps"
    and each: "\<forall>j < length tps. map_of (files w1) (page_pdf_path (tps ! j)) = Some (bs ! j)"
    by simp_all
  have "\<forall>j < length tps. map_of (files wb) (page_pdf_path (tps ! j)) = Some (bs ! j)"
    using each by (simp add: fb update_conv' page_pdf_path_def)
  moreover have "map_of (files wb) ?dst = Some (concat bs)"
    by (simp add: fb update_conv')
  ultimately show ?thesis using dv len by blast
qed

text \<open>
  Claim C8. In the graph the top-level task builds for \<open>N \<ge> 1\<close> target pages, the tasks of
  the first stage are the \<open>N\<close> page tasks, task \<open>j\<close> for page number \<open>j + 1\<close> and the
  \<open>j\<close>-th allocated target page, and the second stage is the stitch task with the same
  list of target pages. In every state the execution of the graph can reach, if the
  stitch task has left the pending state then all \<open>N\<close> page tasks have succeeded. A
  stitch task that returns normally leaves, as the file of the target version, the
  concatenation of the \<open>N\<close> target page PDFs in the order of that list.
\<close>

theorem stitch_after_all_pages_in_page_order:
  assumes "workflow = build_workflow st document_id doc_id doc_ver tv tps lang"
    and "1 \<le> length tps"
  shows "(\<forall>j < length tps.
            task_at workflow (0, j) =
              OcrPage \<lparr>op_doc_id = dv_id doc_ver, op_doc_ver_id = dv_id doc_ver,
                       op_page_number = j + 1, op_target_docver_id = tv,
                       op_target_page_id = tps ! j, op_lang = lang,
                       op_preview_width = 300\<rparr>)
       \<and> task_at workflow (1, 0) = StitchPages (dv_id doc_ver) tv tps
       \<and> (\<forall>s. reachable workflow s \<and> s (1, 0) \<noteq> Pending \<longrightarrow>
              (\<forall>j < length tps. s (0, j) = Succeeded))
       \<and> (\<forall>wa wb. stitch_pages_task st (dv_id doc_ver) tv tps wa = (Inr (), wb) \<longrightarrow>
              (\<exists>dv bs. get_doc_ver (db wa) (dv_id doc_ver) = Inr dv
                 \<and> length bs = length tps
                 \<and> (\<forall>j < length tps.
                       map_of (files wb) (page_pdf_path (tps ! j)) = Some (bs ! j))
                 \<and> map_of (files wb) (DocverPath tv (dv_file_name dv)) = Some (concat bs)))"
proof (intro conjI allI impI)
  fix j assume "j < length tps"
  then show "task_at workflow (0, j) =
              OcrPage \<lparr>op_doc_id = dv_id doc_ver, op_doc_ver_id = dv_id doc_ver,
                       op_page_number = j + 1, op_target_docver_id = tv,
                       op_target_page_id = tps ! j, op_lang = lang,
                       op_preview_width = 300\<rparr>"
    by (simp add: assms(1) task_at_def build_workflow_def per_page_nth)
next
  show "task_at workflow (1, 0) = StitchPages (dv_id doc_ver) tv tps"
    by (simp add: assms(1) task_at_def build_workflow_def)
next
  fix s j assume s: "reachable workflow s \<and> s (1, 0) \<noteq> Pending" and j: "j < length tps"
  from s have "settled workflow s" by (simp add: reachable_settled)
  with s have "ready workflow s 1" by (auto simp: settled_def)
  with j show "s (0, j) = Succeeded"
    by (simp add: ready_def assms(1) build_workflow_def)
next
  fix wa wb assume "stitch_pages_task st (dv_id doc_ver) tv tps wa = (Inr (), wb)"
  then show "\<exists>dv bs. get_doc_ver (db wa) (dv_id doc_ver) = Inr dv
                 \<and> length bs = length tps
                 \<and> (\<forall>j < length tps.
                       map_of (files wb) (page_pdf_path (tps ! j)) = Some (bs ! j))
                 \<and> map_of (files wb) (DocverPath tv (dv_file_name dv)) = Some (concat bs)"
    by (rule stitch_output)
qed


lemma graph1_shape:
  "in_graph graph1 (0, 0)" "in_graph graph1 (0, 1)" "in_graph graph1 (1, 0)"
  "in_graph graph1 (0, Suc 0)" "in_graph graph1 (Suc 0, 0)"
  "length (tasks_of (graph1 ! 0)) = 2"
  by (simp_all add: graph1_def build_workflow_def in_graph_def)

lemma stitching_reachable: "reachable graph1 stitching"
proof -
  let ?s1 = "submitted_state((0, 0) := Started)"
  let ?s2 = "?s1((0, 1) := Started)"
  let ?s3 = "?s2((0, 0) := Succeeded)"
  let ?s4 = "?s3((0, 1) := Succeeded)"
  have "step graph1 submitted_state ?s1"
    by (rule step.start) (simp_all add: graph1_shape submitted_state_def ready_def)
  moreover have "step graph1 ?s1 ?s2"
    by (rule step.start) (simp_all add: graph1_shape submitted_state_def ready_def)
  moreover have "step graph1 ?s2 ?s3"
    by (rule step.succeed) (simp_all add: graph1_shape)
  moreover have "step graph1 ?s3 ?s4"
    by (rule step.succeed) (simp_all add: graph1_shape)
  moreover have "step graph1 ?s4 (?s4((1, 0) := Started))"
    by (rule step.start)
      (auto simp: graph1_shape submitted_state_def ready_def less_Suc_eq numeral_2_eq_2)
  ultimately have "(step graph1)\<^sup>*\<^sup>* submitted_state (?s4((1, 0) := Started))"
    by (meson rtranclp.rtrancl_into_rtrancl rtranclp.rtrancl_refl)
  then show ?thesis by (simp add: reachable_def stitching_def)
qed

theorem stitch_after_all_pages_in_page_order_witness:
  "1 \<le> length [101, 102 :: nat]
   \<and> reachable graph1 stitching
   \<and> stitching (1, 0) \<noteq> Pending
   \<and> stitching (0, 0) = Succeeded
   \<and> stitching (0, 1) = Succeeded
   \<and> task_at graph1 (1, 0) = StitchPages 10 100 [101, 102]
   \<and> fst (stitch_pages_task mirror_on 10 100 [101, 102] pages_world) = Inr ()
   \<and> (\<exists>dv bs. get_doc_ver (db pages_world) (dv_id v1) = Inr dv
        \<and> length bs = length [101, 102 :: nat]
        \<and> map_of (files (snd (stitch_pages_task mirror_on 10 100 [101, 102] pages_world)))
             (page_pdf_path 101) = Some (bs ! 0)
        \<and> map_of (files (snd (stitch_pages_task mirror_on 10 100 [101, 102] pages_world)))
             (page_pdf_path 102) = Some (bs ! 1)
        \<and> map_of (files (snd (stitch_pages_task mirror_on 10 100 [101, 102] pages_world)))
             (DocverPath 100 (dv_file_name dv)) = Some (concat bs))
   \<and> map_of (files (snd (stitch_pages_task mirror_on 10 100 [101, 102] pages_world)))
        (DocverPath 100 ''scan.pdf'') = Some ''%PDF-p1%PDF-p2''"
proof -
  have n: "1 \<le> length [101, 102 :: nat]" by simp
  have started: "stitching (1, 0) \<noteq> Pending"
    by (simp add: stitching_def)
  have ok: "fst (stitch_pages_task mirror_on 10 100 [101, 102] pages_world) = Inr ()"
    by code_simp
  then have run: "stitch_pages_task mirror_on (dv_id v1) 100 [101, 102] pages_world
      = (Inr (), snd (stitch_pages_task mirror_on 10 100 [101, 102] pages_world))"
    by (simp add: prod_eq_iff v1_def)
  have out: "map_of (files (snd (stitch_pages_task mirror_on 10 100 [101, 102] pages_world)))
        (DocverPath 100 ''scan.pdf'') = Some ''%PDF-p1%PDF-p2''"
    by code_simp
  note main = stitch_after_all_pages_in_page_order [OF graph1_def n]
  from main stitching_reachable started
  have "\<forall>j < length [101, 102 :: nat]. stitching (0, j) = Succeeded"
    by blast
  then have pages: "stitching (0, 0) = Succeeded" "stitching (0, 1) = Succeeded"
    by simp_all
  from main have stitch: "task_at graph1 (1, 0) = StitchPages 10 100 [101, 102]"
    by (simp add: v1_def)
  from main run
  obtain dv bs where dv: "get_doc_ver (db pages_world) (dv_id v1) = Inr dv"
    and len: "length bs = length [101, 102 :: nat]"
    and each: "\<forall>j < length [101, 102 :: nat].
              map_of (files (snd (stitch_pages_task mirror_on 10 100 [101, 102] pages_world)))
                (page_pdf_path ([101, 102] ! j)) = Some (bs ! j)"
    and whole: "map_of (files (snd (stitch_pages_task mirror_on 10 100 [101, 102] pages_world)))
             (DocverPath 100 (dv_file_name dv)) = Some (concat bs)"
    by blast
  from each [rule_format, of 0] each [rule_format, of 1]
  have two: "map_of (files (snd (stitch_pages_task mirror_on 10 100 [101, 102] pages_world)))
             (page_pdf_path 101) = Some (bs ! 0)"
    "map_of (files (snd (stitch_pages_task mirror_on 10 100 [101, 102] pages_world)))
             (page_pdf_path 102) = Some (bs ! 1)"
    by simp_all
  from dv len two whole
  have merged: "\<exists>dv bs. get_doc_ver (db pages_world) (dv_id v1) = Inr dv
        \<and> length bs = length [101, 102 :: nat]
        \<and> map_of (files (snd (stitch_pages_task mirror_on 10 100 [101, 102] pages_world)))
             (page_pdf_path 101) = Some (bs ! 0)
        \<and> map_of (files (snd (stitch_pages_task mirror_on 10 100 [101, 102] pages_world)))
             (page_pdf_path 102) = Some (bs ! 1)
        \<and> map_of (files (snd (stitch_pages_task mirror_on 10 100 [101, 102] pages_world)))
             (DocverPath 100 (dv_file_name dv)) = Some (concat bs)"
    by blast
  from n stitching_reachable started pages stitch ok merged out show ?thesis
    by blast
qed

end
